theory Spec2Isabelle
  imports Main
begin

section \<open>Values, effects and completions\<close>

text \<open>
  The server is TypeScript on Express, Socket.IO and Redis. A function of the source is
  modelled by the list of the effects it performs on its collaborators, in the order it
  performs them, together with the way it completes: it returns a value, it throws, or
  it stays suspended on a promise that never settles.
\<close>

subsection \<open>The error classes (shared/globals/helpers/error-handler)\<close>

text \<open>
  Modelled from the spec: the members of \<^verbatim>\<open>HTTP_STATUS\<close> that the error classes read.
  They come from the package http-status-codes, which is not part of the sources; the
  values are the ones section 3 of the specification gives for each kind.
\<close>

definition BAD_REQUEST :: int where
  "BAD_REQUEST = 400"

definition NOT_FOUND :: int where
  "NOT_FOUND = 404"

definition UNAUTHORIZED :: int where
  "UNAUTHORIZED = 401"

definition REQUEST_TOO_LONG :: int where
  "REQUEST_TOO_LONG = 413"

definition SERVICE_UNAVAILABLE :: int where
  "SERVICE_UNAVAILABLE = 503"

text \<open>The six concrete subclasses of the abstract class \<^verbatim>\<open>CustomError\<close>.\<close>

datatype error_class =
    BadRequestErrorClass
  | NotFoundErrorClass
  | NotAuthorizedErrorClass
  | FileTooLargeErrorClass
  | ServerErrorClass
  | JoinValidationErrorClass

text \<open>
  An instance of \<^verbatim>\<open>CustomError\<close>: the \<^verbatim>\<open>message\<close> that \<^verbatim>\<open>Error\<close> stores, the two
  fields every subclass initialises, and the class the instance was made from.
\<close>

record CustomError =
  message :: string
  statusCode :: int
  status :: string
  cls :: error_class

text \<open>
  What a \<^verbatim>\<open>throw\<close> or a rejected promise carries: an instance of \<^verbatim>\<open>CustomError\<close>, or
  any other value (here its text), for which \<^verbatim>\<open>instanceof CustomError\<close> is false.
\<close>

datatype thrown = CustomErr CustomError | OtherErr string

text \<open>A JavaScript object literal: its properties in the order they are written.\<close>

datatype js_value = JStr string | JNum int

type_synonym js_object = "(string \<times> js_value) list"

subsection \<open>Collaborators and the effects on them\<close>

record cookieSessionOptions =
  name :: string
  keys :: "string list"
  maxAge :: int
  secure :: bool

text \<open>
  The middleware factories of \<^verbatim>\<open>setupServer.ts\<close> with the options they are given:
  \<^verbatim>\<open>cors\<close> takes origin, credentials, optionsSuccessStatus and methods; \<^verbatim>\<open>json\<close> takes
  the limit; \<^verbatim>\<open>urlencoded\<close> takes extended and the limit.
\<close>

datatype middleware =
    CookieSession cookieSessionOptions
  | Hpp
  | Helmet
  | Cors string bool int "string list"
  | Compression
  | Json string
  | Urlencoded bool string

datatype client = PubClient | SubClient

text \<open>
  The calls that the sources make on their collaborators: registrations on the Express
  application, the making of the servers and of the Redis clients, the log, the calls
  on the response (\<^verbatim>\<open>status\<close>, \<^verbatim>\<open>json\<close>, and \<^verbatim>\<open>end\<close> with no body) and
  \<^verbatim>\<open>next()\<close>. \<open>FinalHandler\<close> stands for Express's own last resort, which answers a
  request that no layer has answered, with the pending error if there is one.
\<close>

datatype effect =
    AppUse middleware
  | ApplicationRoutes
  | AppAll string
  | AppUseErrorHandler
  | NewHttpServer
  | NewSocketServer string "string list"
  | CreateClient string
  | Duplicate
  | Connect client
  | SetAdapter client client
  | Listen nat
  | LogInfo string
  | LogError thrown
  | ResStatus int
  | ResJson js_object
  | ResEnd
  | Next
  | FinalHandler "thrown option"

datatype 'a completion = Returns 'a | Throws thrown | Pending

type_synonym 'a js = "effect list \<times> 'a completion"

abbreviation effects :: "'a js \<Rightarrow> effect list" where
  "effects m \<equiv> fst m"

abbreviation completion :: "'a js \<Rightarrow> 'a completion" where
  "completion m \<equiv> snd m"

definition ret :: "'a \<Rightarrow> 'a js" where
  "ret x = ([], Returns x)"

definition emit :: "effect \<Rightarrow> unit js" where
  "emit e = ([e], Returns ())"

definition prepend :: "effect list \<Rightarrow> 'a js \<Rightarrow> 'a js" where
  "prepend es m = (es @ effects m, completion m)"

text \<open>
  Sequencing: the second computation runs only when the first one returns; a throw or a
  suspension ends the sequence there.
\<close>

definition js_bind :: "'a js \<Rightarrow> ('a \<Rightarrow> 'b js) \<Rightarrow> 'b js" where
  "js_bind m f =
     (case completion m of
        Returns x \<Rightarrow> prepend (effects m) (f x)
      | Throws t \<Rightarrow> (effects m, Throws t)
      | Pending \<Rightarrow> (effects m, Pending))"

fun block :: "unit js list \<Rightarrow> unit js" where
  "block [] = ret ()"
| "block (m # ms) = js_bind m (\<lambda>_. block ms)"

text \<open>\<^verbatim>\<open>try { m } catch (error) { h(error) }\<close>.\<close>

definition try_catch :: "'a js \<Rightarrow> (thrown \<Rightarrow> 'a js) \<Rightarrow> 'a js" where
  "try_catch m h =
     (case completion m of
        Throws t \<Rightarrow> prepend (effects m) (h t)
      | Returns x \<Rightarrow> m
      | Pending \<Rightarrow> m)"

subsection \<open>CustomError and its subclasses\<close>

text \<open>
  \<^verbatim>\<open>new K(message)\<close> for each class \<^verbatim>\<open>K\<close>: the constructor passes the message up to
  \<^verbatim>\<open>Error\<close>, and the field initialisers set \<^verbatim>\<open>statusCode\<close> and \<^verbatim>\<open>status\<close>. No
  constructor of the chain tests its argument or throws.
\<close>

definition BadRequestError :: "string \<Rightarrow> CustomError js" where
  "BadRequestError msg =
     ret \<lparr>message = msg, statusCode = BAD_REQUEST, status = ''error'',
          cls = BadRequestErrorClass\<rparr>"

definition NotFoundError :: "string \<Rightarrow> CustomError js" where
  "NotFoundError msg =
     ret \<lparr>message = msg, statusCode = NOT_FOUND, status = ''error'',
          cls = NotFoundErrorClass\<rparr>"

definition NotAuthorizedError :: "string \<Rightarrow> CustomError js" where
  "NotAuthorizedError msg =
     ret \<lparr>message = msg, statusCode = UNAUTHORIZED, status = ''error'',
          cls = NotAuthorizedErrorClass\<rparr>"

definition FileTooLargeError :: "string \<Rightarrow> CustomError js" where
  "FileTooLargeError msg =
     ret \<lparr>message = msg, statusCode = REQUEST_TOO_LONG, status = ''error'',
          cls = FileTooLargeErrorClass\<rparr>"

definition ServerError :: "string \<Rightarrow> CustomError js" where
  "ServerError msg =
     ret \<lparr>message = msg, statusCode = SERVICE_UNAVAILABLE, status = ''error'',
          cls = ServerErrorClass\<rparr>"

definition JoinValidationError :: "string \<Rightarrow> CustomError js" where
  "JoinValidationError msg =
     ret \<lparr>message = msg, statusCode = SERVICE_UNAVAILABLE, status = ''error'',
          cls = JoinValidationErrorClass\<rparr>"

text \<open>
  \<^verbatim>\<open>serializeErrors()\<close> called on the instance \<open>this\<close>: the object literal it returns,
  paired with the instance as the call leaves it (the body assigns to no field).
\<close>

definition serializeErrors :: "CustomError \<Rightarrow> (js_object \<times> CustomError) js" where
  "serializeErrors this =
     ret ([(''message'', JStr (message this)),
           (''statusCode'', JNum (statusCode this)),
           (''status'', JStr (status this))],
          this)"

text \<open>The expression \<^verbatim>\<open>new K(message).serializeErrors()\<close>, for a constructor \<open>K\<close>.\<close>

definition new_serializeErrors :: "(string \<Rightarrow> CustomError js) \<Rightarrow> string \<Rightarrow> js_object js" where
  "new_serializeErrors K msg =
     js_bind (K msg) (\<lambda>this. js_bind (serializeErrors this) (\<lambda>r. ret (fst r)))"

text \<open>The same call made twice in a row on one instance; both results are returned.\<close>

definition serializeErrors_twice :: "CustomError \<Rightarrow> (js_object \<times> js_object) js" where
  "serializeErrors_twice this =
     js_bind (serializeErrors this) (\<lambda>r1.
       js_bind (serializeErrors (snd r1)) (\<lambda>r2. ret (fst r1, fst r2)))"

text \<open>Whether a computation ends by throwing.\<close>

definition throws :: "'a js \<Rightarrow> bool" where
  "throws m = (case completion m of Throws t \<Rightarrow> True | Returns x \<Rightarrow> False | Pending \<Rightarrow> False)"

section \<open>The two handlers that globalErrorHandler registers\<close>

text \<open>
  An Express request: its method, its URL, and the error, if any, that each of the two
  body parsers raises on its body (a malformed or too large body, for instance).
\<close>

record request =
  httpMethod :: string
  originalUrl :: string
  jsonError :: "string option"
  urlencodedError :: "string option"

text \<open>
  The handler given to \<^verbatim>\<open>app.all('*', ...)\<close>:
  \<^verbatim>\<open>res.status(HTTP_STATUS.NOT_FOUND).json({ message: `${req.originalUrl} not found` })\<close>.
\<close>

definition catchAllHandler :: "request \<Rightarrow> unit js" where
  "catchAllHandler req =
     block [emit (ResStatus NOT_FOUND),
            emit (ResJson [(''message'', JStr (originalUrl req @ '' not found''))])]"

text \<open>
  The four-argument handler given to \<^verbatim>\<open>app.use\<close>: it logs the error; for an instance
  of \<^verbatim>\<open>CustomError\<close> it sets the status, serialises the error and sends the result;
  otherwise it calls \<^verbatim>\<open>next()\<close>.
\<close>

definition errorHandler :: "thrown \<Rightarrow> unit js" where
  "errorHandler error =
     js_bind (emit (LogError error)) (\<lambda>_.
       case error of
         CustomErr e \<Rightarrow>
           js_bind (emit (ResStatus (statusCode e))) (\<lambda>_.
             js_bind (serializeErrors e) (\<lambda>r. emit (ResJson (fst r))))
       | OtherErr x \<Rightarrow> emit Next)"

section \<open>ChattyServer (setupServer.ts)\<close>

text \<open>
  The members of \<^verbatim>\<open>config\<close> that the server reads. The module \<^verbatim>\<open>./config\<close> is not part
  of the sources, so the configuration is a parameter.
\<close>

record config =
  SECRET_KEY_ONE :: string
  SECRET_KEY_TWO :: string
  NODE_ENV :: string
  CLIENT_URL :: string
  REDIS_HOST :: string

text \<open>
  What comes of establishing one link to the channel. The client may fail to be made:
  \<^verbatim>\<open>createClient\<close> (for the publish link) or \<^verbatim>\<open>duplicate\<close> (for the subscribe link)
  throws. Otherwise \<^verbatim>\<open>connect()\<close> is called on the client and returns a promise, which
  is fulfilled, is rejected with a reason, or never settles.
\<close>

datatype link = Fulfilled | Rejected thrown | Unsettled | ClientThrows thrown

text \<open>
  What the process and the network contribute to a start: the process id, what comes of
  the publish link and of the subscribe link, and which of the two \<^verbatim>\<open>connect()\<close>
  promises settles first.
\<close>

record runtime =
  pid :: string
  pubConnect :: link
  subConnect :: link
  pubSettlesFirst :: bool

text \<open>
  \<^verbatim>\<open>Promise.all([p, q])\<close>: rejected as soon as one of the two is rejected, with that
  reason (the earlier one when both are); fulfilled when both are; otherwise unsettled.
  A client that was not made has no promise, and \<^verbatim>\<open>createSocketIO\<close> does not get to
  \<^verbatim>\<open>Promise.all\<close> then; those cases are given the value of a rejection.
\<close>

definition Promise_all :: "bool \<Rightarrow> link \<Rightarrow> link \<Rightarrow> link" where
  "Promise_all p_first p q =
     (case p of
        Rejected a \<Rightarrow>
          (case q of
             Rejected b \<Rightarrow> Rejected (if p_first then a else b)
           | Fulfilled \<Rightarrow> Rejected a
           | Unsettled \<Rightarrow> Rejected a
           | ClientThrows e \<Rightarrow> Rejected e)
      | Fulfilled \<Rightarrow>
          (case q of
             Rejected b \<Rightarrow> Rejected b
           | Fulfilled \<Rightarrow> Fulfilled
           | Unsettled \<Rightarrow> Unsettled
           | ClientThrows e \<Rightarrow> Rejected e)
      | Unsettled \<Rightarrow>
          (case q of
             Rejected b \<Rightarrow> Rejected b
           | Fulfilled \<Rightarrow> Unsettled
           | Unsettled \<Rightarrow> Unsettled
           | ClientThrows e \<Rightarrow> Rejected e)
      | ClientThrows e \<Rightarrow> Rejected e)"

text \<open>\<^verbatim>\<open>await p\<close>: goes on, throws the reason, or stays suspended.\<close>

definition await :: "link \<Rightarrow> unit js" where
  "await p =
     (case p of
        Fulfilled \<Rightarrow> ret ()
      | Rejected t \<Rightarrow> ([], Throws t)
      | Unsettled \<Rightarrow> ([], Pending)
      | ClientThrows t \<Rightarrow> ([], Throws t))"

text \<open>
  A call that makes a client, \<^verbatim>\<open>createClient({ url })\<close> or \<^verbatim>\<open>pubClient.duplicate()\<close>:
  the call is made, and it throws when the link says that the client cannot be made.
\<close>

definition makeClient :: "effect \<Rightarrow> link \<Rightarrow> unit js" where
  "makeClient call l =
     js_bind (emit call) (\<lambda>_.
       case l of
         ClientThrows t \<Rightarrow> ([], Throws t)
       | Fulfilled \<Rightarrow> ret ()
       | Rejected t \<Rightarrow> ret ()
       | Unsettled \<Rightarrow> ret ())"

definition SERVER_PORT :: nat where
  "SERVER_PORT = 5000"

text \<open>The options object that \<^verbatim>\<open>securityMiddleWare\<close> passes to \<^verbatim>\<open>cookieSession\<close>.\<close>

definition cookieSessionConfig :: "config \<Rightarrow> cookieSessionOptions" where
  "cookieSessionConfig config =
     \<lparr>name = ''session'',
      keys = [SECRET_KEY_ONE config, SECRET_KEY_TWO config],
      maxAge = 24 * 7 * 360000,
      secure = (NODE_ENV config \<noteq> ''development'')\<rparr>"

definition securityMiddleWare :: "config \<Rightarrow> unit js" where
  "securityMiddleWare config =
     block [emit (AppUse (CookieSession (cookieSessionConfig config))),
            emit (AppUse Hpp),
            emit (AppUse Helmet),
            emit (AppUse (Cors (CLIENT_URL config) True 200
                            [''GET'', ''POST'', ''PUT'', ''DELETE'', ''OPTIONS'']))]"

definition standardMiddleWare :: "unit js" where
  "standardMiddleWare =
     block [emit (AppUse Compression),
            emit (AppUse (Json ''50mb'')),
            emit (AppUse (Urlencoded True ''50mb''))]"

definition routeMiddleWare :: "unit js" where
  "routeMiddleWare = emit ApplicationRoutes"

definition globalErrorHandler :: "unit js" where
  "globalErrorHandler = block [emit (AppAll ''*''), emit AppUseErrorHandler]"

text \<open>
  \<^verbatim>\<open>createSocketIO\<close>: the Socket.IO server is made on the HTTP server, the two Redis
  clients are made, both \<^verbatim>\<open>connect()\<close> calls are issued, their \<^verbatim>\<open>Promise.all\<close> is
  awaited, and then the adapter is set.
\<close>

definition createSocketIO :: "config \<Rightarrow> runtime \<Rightarrow> unit js" where
  "createSocketIO config rt =
     block [emit (NewSocketServer (CLIENT_URL config)
                    [''GET'', ''POST'', ''PUT'', ''DELETE'', ''OPTIONS'']),
            makeClient (CreateClient (REDIS_HOST config)) (pubConnect rt),
            makeClient Duplicate (subConnect rt),
            emit (Connect PubClient),
            emit (Connect SubClient),
            await (Promise_all (pubSettlesFirst rt) (pubConnect rt) (subConnect rt)),
            emit (SetAdapter PubClient SubClient)]"

text \<open>
  \<^verbatim>\<open>startHttpServer\<close>: the log line, then \<^verbatim>\<open>httpServer.listen(SERVER_PORT, ...)\<close>. The
  callback given to \<^verbatim>\<open>listen\<close> runs later, when the socket is bound.
\<close>

definition startHttpServer :: "runtime \<Rightarrow> unit js" where
  "startHttpServer rt =
     block [emit (LogInfo (''Server has started with process '' @ pid rt)),
            emit (Listen SERVER_PORT)]"

definition socketIOConnection :: "unit js" where
  "socketIOConnection = ret ()"

definition startServer :: "config \<Rightarrow> runtime \<Rightarrow> unit js" where
  "startServer config rt =
     try_catch
       (block [emit NewHttpServer,
               createSocketIO config rt,
               startHttpServer rt,
               socketIOConnection])
       (\<lambda>error. emit (LogError error))"

text \<open>
  \<^verbatim>\<open>start\<close>. It does not await \<^verbatim>\<open>startServer\<close>; the completion given here is the one
  of the start-up as a whole, that is of the asynchronous \<^verbatim>\<open>startServer\<close> it launches
  last.
\<close>

definition start :: "config \<Rightarrow> runtime \<Rightarrow> unit js" where
  "start config rt =
     block [securityMiddleWare config,
            standardMiddleWare,
            routeMiddleWare,
            globalErrorHandler,
            startServer config rt]"

text \<open>
  In a trace, \<open>a\<close> precedes \<open>b\<close>: \<open>b\<close> occurs, and \<open>a\<close> occurs before the first
  occurrence of \<open>b\<close>.
\<close>

definition precedes :: "'a \<Rightarrow> 'a \<Rightarrow> 'a list \<Rightarrow> bool" where
  "precedes a b t = (b \<in> set t \<and> a \<in> set (takeWhile (\<lambda>x. x \<noteq> b) t))"

section \<open>The way of a request through the application\<close>

text \<open>
  \<^verbatim>\<open>start\<close> puts layers on the Express application in the order of its calls: the
  middleware of \<^verbatim>\<open>securityMiddleWare\<close> and \<^verbatim>\<open>standardMiddleWare\<close>, the routes of
  \<^verbatim>\<open>applicationRoutes\<close>, the catch-all route and the error handler. Express, the
  middleware packages and the routes are not part of the sources. The routes are a
  parameter; Express and the packages are modelled as far as they decide whether a
  request reaches the catch-all handler.
\<close>

text \<open>\<^verbatim>\<open>toUpperCase()\<close> on a method name, which is made of ASCII letters.\<close>

definition toUpperCase :: "string \<Rightarrow> string" where
  "toUpperCase s =
     map (\<lambda>c. case map_of (zip ''abcdefghijklmnopqrstuvwxyz'' ''ABCDEFGHIJKLMNOPQRSTUVWXYZ'') c of
                None \<Rightarrow> c
              | Some u \<Rightarrow> u) s"

text \<open>
  What each middleware does with a request. \<^verbatim>\<open>cors\<close> with a static, non-empty origin
  ends every OPTIONS request itself, with the status \<^verbatim>\<open>optionsSuccessStatus\<close> and an
  empty body, since \<^verbatim>\<open>preflightContinue\<close> is not set; with an empty origin it passes
  every request on. The body parsers pass the request on unless they raise an error on
  its body. The other middleware passes every request on. Response headers are not
  modelled.
\<close>

fun behaviour :: "middleware \<Rightarrow> request \<Rightarrow> unit js" where
  "behaviour (CookieSession options) req = emit Next"
| "behaviour Hpp req = emit Next"
| "behaviour Helmet req = emit Next"
| "behaviour (Cors origin credentials optionsSuccessStatus methods) req =
     (if origin = [] then emit Next
      else if toUpperCase (httpMethod req) = ''OPTIONS''
      then block [emit (ResStatus optionsSuccessStatus), emit ResEnd]
      else emit Next)"
| "behaviour Compression req = emit Next"
| "behaviour (Json limit) req =
     (case jsonError req of None \<Rightarrow> emit Next | Some x \<Rightarrow> ([], Throws (OtherErr x)))"
| "behaviour (Urlencoded extended limit) req =
     (case urlencodedError req of None \<Rightarrow> emit Next | Some x \<Rightarrow> ([], Throws (OtherErr x)))"

text \<open>
  The path that Express matches routes against: the request URL up to the query string
  or the fragment.
\<close>

definition pathname :: "request \<Rightarrow> string" where
  "pathname req = takeWhile (\<lambda>c. c \<noteq> CHR ''?'' \<and> c \<noteq> CHR ''#'') (originalUrl req)"

text \<open>
  Whether \<^verbatim>\<open>decodeURIComponent\<close> accepts a string: every \<^verbatim>\<open>%\<close> starts an escape of two
  hexadecimal digits, and the escaped bytes from 0x80 on form well-formed UTF-8
  sequences, each byte of a sequence being an escape. The state is what the decoder
  expects next: the start of a character, or a number of continuation bytes, the next of
  them within the given bounds.
\<close>

definition hex_value :: "char \<Rightarrow> nat option" where
  "hex_value c =
     (let n = (of_char c :: nat) in
      if 48 \<le> n \<and> n \<le> 57 then Some (n - 48)
      else if 65 \<le> n \<and> n \<le> 70 then Some (n - 55)
      else if 97 \<le> n \<and> n \<le> 102 then Some (n - 87)
      else None)"

datatype utf8_state = Start | Continuation nat nat nat

definition utf8_lead :: "nat \<Rightarrow> utf8_state option" where
  "utf8_lead b =
     (if b < 128 then Some Start
      else if 194 \<le> b \<and> b \<le> 223 then Some (Continuation 1 128 191)
      else if b = 224 then Some (Continuation 2 160 191)
      else if 225 \<le> b \<and> b \<le> 236 then Some (Continuation 2 128 191)
      else if b = 237 then Some (Continuation 2 128 159)
      else if 238 \<le> b \<and> b \<le> 239 then Some (Continuation 2 128 191)
      else if b = 240 then Some (Continuation 3 144 191)
      else if 241 \<le> b \<and> b \<le> 243 then Some (Continuation 3 128 191)
      else if b = 244 then Some (Continuation 3 128 143)
      else None)"

definition utf8_step :: "utf8_state \<Rightarrow> nat \<Rightarrow> utf8_state option" where
  "utf8_step st b =
     (case st of
        Start \<Rightarrow> utf8_lead b
      | Continuation n lo hi \<Rightarrow>
          (if lo \<le> b \<and> b \<le> hi
           then Some (if n = 1 then Start else Continuation (n - 1) 128 191)
           else None))"

fun decodes :: "utf8_state \<Rightarrow> string \<Rightarrow> bool" where
  "decodes st [] = (st = Start)"
| "decodes st (c # cs) =
     (if c = CHR ''%'' then
        (case cs of
           h1 # h2 # rest \<Rightarrow>
             (case hex_value h1 of
                None \<Rightarrow> False
              | Some a \<Rightarrow>
                  (case hex_value h2 of
                     None \<Rightarrow> False
                   | Some b \<Rightarrow>
                       (case utf8_step st (16 * a + b) of
                          None \<Rightarrow> False
                        | Some st' \<Rightarrow> decodes st' rest)))
         | [h1] \<Rightarrow> False
         | [] \<Rightarrow> False)
      else st = Start \<and> decodes Start cs)"

definition decodable :: "string \<Rightarrow> bool" where
  "decodable s = decodes Start s"

text \<open>
  What matching a route against a request comes to: it matches, it does not, or the
  match fails with an error, as it does when a path parameter cannot be decoded.
\<close>

datatype match_result = Matches | NoMatch | MatchFails string

text \<open>
  The routes that \<^verbatim>\<open>applicationRoutes(app)\<close> registers: each one says what matching it
  against a request comes to (by method and path pattern) and what its handler does.
\<close>

record route =
  route_match :: "request \<Rightarrow> match_result"
  handler :: "request \<Rightarrow> unit js"

text \<open>
  The pattern \<^verbatim>\<open>'*'\<close> takes every path as its one parameter and decodes it; Express
  raises "Failed to decode param" when that fails. \<^verbatim>\<open>start\<close> registers no other
  pattern, and none is modelled.
\<close>

definition match_pattern :: "string \<Rightarrow> request \<Rightarrow> match_result" where
  "match_pattern pattern req =
     (if pattern = ''*'' then
        (if decodable (pathname req) then Matches
         else MatchFails (''Failed to decode param '' @ [CHR 0x27] @ pathname req @ [CHR 0x27]))
      else NoMatch)"

datatype layer =
    Middleware "request \<Rightarrow> unit js"
  | RouteLayer route
  | ErrorLayer "thrown \<Rightarrow> unit js"

text \<open>
  The layers that a registration puts on the application. \<^verbatim>\<open>app.all\<close> is called once
  in the sources, with the catch-all handler, and the four-argument \<^verbatim>\<open>app.use\<close> once,
  with the error handler.
\<close>

fun registered :: "route list \<Rightarrow> effect \<Rightarrow> layer list" where
  "registered routes (AppUse m) = [Middleware (behaviour m)]"
| "registered routes ApplicationRoutes = map RouteLayer routes"
| "registered routes (AppAll pattern) =
     [RouteLayer \<lparr>route_match = match_pattern pattern, handler = catchAllHandler\<rparr>]"
| "registered routes AppUseErrorHandler = [ErrorLayer errorHandler]"
| "registered routes e = []"

text \<open>
  After a layer has run: when it has called \<^verbatim>\<open>next()\<close> the layers after it go on
  without an error, when it has thrown they go on with the error, and otherwise the
  request ends with it.
\<close>

definition and_then :: "unit js \<Rightarrow> (thrown option \<Rightarrow> unit js) \<Rightarrow> unit js" where
  "and_then m k =
     (case completion m of
        Returns u \<Rightarrow> (if Next \<in> set (effects m) then prepend (effects m) (k None) else m)
      | Throws t \<Rightarrow> prepend (effects m) (k (Some t))
      | Pending \<Rightarrow> m)"

text \<open>
  Express's router. Without a pending error it runs the middleware and the routes that
  match, and skips the error handlers; with a pending error it runs the error handlers
  only. A match that fails leaves its error pending, unless one is pending already. Past
  the last layer Express's own final handler answers, with the pending error if there
  is one.
\<close>

fun router :: "layer list \<Rightarrow> thrown option \<Rightarrow> request \<Rightarrow> unit js" where
  "router [] pending req = emit (FinalHandler pending)"
| "router (Middleware f # ls) pending req =
     (case pending of
        None \<Rightarrow> and_then (f req) (\<lambda>p. router ls p req)
      | Some e \<Rightarrow> router ls (Some e) req)"
| "router (RouteLayer r # ls) pending req =
     (case route_match r req of
        MatchFails x \<Rightarrow>
          router ls (Some (case pending of None \<Rightarrow> OtherErr x | Some e \<Rightarrow> e)) req
      | NoMatch \<Rightarrow> router ls pending req
      | Matches \<Rightarrow>
          (case pending of
             None \<Rightarrow> and_then (handler r req) (\<lambda>p. router ls p req)
           | Some e \<Rightarrow> router ls (Some e) req))"
| "router (ErrorLayer h # ls) pending req =
     (case pending of
        None \<Rightarrow> router ls None req
      | Some e \<Rightarrow> and_then (h e) (\<lambda>p. router ls p req))"

text \<open>
  The application that a start has set up receives a request. It receives none unless
  the start has come to \<^verbatim>\<open>listen\<close>.
\<close>

definition handle_request :: "config \<Rightarrow> runtime \<Rightarrow> route list \<Rightarrow> request \<Rightarrow> unit js" where
  "handle_request config rt routes req =
     (if Listen SERVER_PORT \<in> set (effects (start config rt))
      then router (concat (map (registered routes) (effects (start config rt)))) None req
      else ([], Pending))"

section \<open>Unfolding rules\<close>

lemmas js_defs = ret_def emit_def prepend_def js_bind_def try_catch_def

lemmas HTTP_STATUS_defs =
  BAD_REQUEST_def NOT_FOUND_def UNAUTHORIZED_def REQUEST_TOO_LONG_def SERVICE_UNAVAILABLE_def

lemmas constructor_defs =
  BadRequestError_def NotFoundError_def NotAuthorizedError_def FileTooLargeError_def
  ServerError_def JoinValidationError_def

section \<open>Traces of the start-up methods\<close>

lemma securityMiddleWare_trace:
  "securityMiddleWare config =
     ([AppUse (CookieSession (cookieSessionConfig config)), AppUse Hpp, AppUse Helmet,
       AppUse (Cors (CLIENT_URL config) True 200
                 [''GET'', ''POST'', ''PUT'', ''DELETE'', ''OPTIONS''])],
      Returns ())"
  by (simp add: securityMiddleWare_def js_defs)

lemma standardMiddleWare_trace:
  "standardMiddleWare =
     ([AppUse Compression, AppUse (Json ''50mb''), AppUse (Urlencoded True ''50mb'')],
      Returns ())"
  by (simp add: standardMiddleWare_def js_defs)

lemma routeMiddleWare_trace: "routeMiddleWare = ([ApplicationRoutes], Returns ())"
  by (simp add: routeMiddleWare_def js_defs)

lemma globalErrorHandler_trace:
  "globalErrorHandler = ([AppAll ''*'', AppUseErrorHandler], Returns ())"
  by (simp add: globalErrorHandler_def js_defs)

lemma startHttpServer_trace:
  "startHttpServer rt =
     ([LogInfo (''Server has started with process '' @ pid rt), Listen SERVER_PORT],
      Returns ())"
  by (simp add: startHttpServer_def js_defs)

lemma makeClient_throws: "makeClient call (ClientThrows e) = ([call], Throws e)"
  by (simp add: makeClient_def js_defs)

lemma makeClient_returns: "\<forall>x. l \<noteq> ClientThrows x \<Longrightarrow> makeClient call l = ([call], Returns ())"
  by (cases l) (simp_all add: makeClient_def js_defs)

text \<open>
  \<^verbatim>\<open>startServer\<close> when the publish client cannot be made, when the subscribe client
  cannot be made, and when both are made; in the last case it has three courses, one
  for each thing the awaited \<^verbatim>\<open>Promise.all\<close> can come to.
\<close>

lemma startServer_pub_throws:
  assumes "pubConnect rt = ClientThrows e"
  shows "startServer config rt =
     ([NewHttpServer,
       NewSocketServer (CLIENT_URL config)
         [''GET'', ''POST'', ''PUT'', ''DELETE'', ''OPTIONS''],
       CreateClient (REDIS_HOST config),
       LogError e],
      Returns ())"
  using assms
  by (simp add: startServer_def createSocketIO_def makeClient_throws js_defs)

lemma startServer_sub_throws:
  assumes "\<forall>x. pubConnect rt \<noteq> ClientThrows x" and "subConnect rt = ClientThrows e"
  shows "startServer config rt =
     ([NewHttpServer,
       NewSocketServer (CLIENT_URL config)
         [''GET'', ''POST'', ''PUT'', ''DELETE'', ''OPTIONS''],
       CreateClient (REDIS_HOST config), Duplicate,
       LogError e],
      Returns ())"
  using assms
  by (simp add: startServer_def createSocketIO_def makeClient_throws makeClient_returns js_defs)

lemma startServer_trace:
  assumes "\<forall>x. pubConnect rt \<noteq> ClientThrows x" and "\<forall>x. subConnect rt \<noteq> ClientThrows x"
  shows "startServer config rt =
     (case Promise_all (pubSettlesFirst rt) (pubConnect rt) (subConnect rt) of
        Fulfilled \<Rightarrow>
          ([NewHttpServer,
            NewSocketServer (CLIENT_URL config)
              [''GET'', ''POST'', ''PUT'', ''DELETE'', ''OPTIONS''],
            CreateClient (REDIS_HOST config), Duplicate,
            Connect PubClient, Connect SubClient,
            SetAdapter PubClient SubClient,
            LogInfo (''Server has started with process '' @ pid rt),
            Listen SERVER_PORT],
           Returns ())
      | Rejected t \<Rightarrow>
          ([NewHttpServer,
            NewSocketServer (CLIENT_URL config)
              [''GET'', ''POST'', ''PUT'', ''DELETE'', ''OPTIONS''],
            CreateClient (REDIS_HOST config), Duplicate,
            Connect PubClient, Connect SubClient,
            LogError t],
           Returns ())
      | Unsettled \<Rightarrow>
          ([NewHttpServer,
            NewSocketServer (CLIENT_URL config)
              [''GET'', ''POST'', ''PUT'', ''DELETE'', ''OPTIONS''],
            CreateClient (REDIS_HOST config), Duplicate,
            Connect PubClient, Connect SubClient],
           Pending)
      | ClientThrows t \<Rightarrow>
          ([NewHttpServer,
            NewSocketServer (CLIENT_URL config)
              [''GET'', ''POST'', ''PUT'', ''DELETE'', ''OPTIONS''],
            CreateClient (REDIS_HOST config), Duplicate,
            Connect PubClient, Connect SubClient,
            LogError t],
           Returns ()))"
  using assms
  by (simp add: startServer_def createSocketIO_def makeClient_returns startHttpServer_trace
      socketIOConnection_def await_def js_defs split: link.split)

lemma start_trace:
  "start config rt =
     prepend
       [AppUse (CookieSession (cookieSessionConfig config)), AppUse Hpp, AppUse Helmet,
        AppUse (Cors (CLIENT_URL config) True 200
                  [''GET'', ''POST'', ''PUT'', ''DELETE'', ''OPTIONS'']),
        AppUse Compression, AppUse (Json ''50mb''), AppUse (Urlencoded True ''50mb''),
        ApplicationRoutes, AppAll ''*'', AppUseErrorHandler]
       (startServer config rt)"
  by (simp add: start_def securityMiddleWare_trace standardMiddleWare_trace
      routeMiddleWare_trace globalErrorHandler_trace js_defs split: completion.split)

lemma Promise_all_Fulfilled:
  "Promise_all b p q = Fulfilled \<longleftrightarrow> p = Fulfilled \<and> q = Fulfilled"
  by (simp add: Promise_all_def split: link.split)

lemma Promise_all_not_ClientThrows: "Promise_all b p q \<noteq> ClientThrows x"
  by (simp add: Promise_all_def split: link.split)

text \<open>The reason of a rejected \<^verbatim>\<open>Promise.all\<close> is the one of the promise rejected first.\<close>

lemma Promise_all_first_reason:
  assumes "\<forall>x. p \<noteq> ClientThrows x" and "\<forall>x. q \<noteq> ClientThrows x"
  shows "Promise_all b p q = Rejected t \<longleftrightarrow>
     p = Rejected t \<and> ((\<forall>x. q \<noteq> Rejected x) \<or> b)
     \<or> q = Rejected t \<and> ((\<forall>x. p \<noteq> Rejected x) \<or> \<not> b)"
  using assms by (cases p; cases q) (auto simp add: Promise_all_def)

text \<open>Whatever comes of the links, the start-up registers nothing after the error handler.\<close>

lemma startServer_registers_nothing:
  "concat (map (registered routes) (effects (startServer config rt))) = []"
proof (cases "\<exists>x. pubConnect rt = ClientThrows x")
  case True
  then show ?thesis by (auto simp add: startServer_pub_throws)
next
  case pub: False
  show ?thesis
  proof (cases "\<exists>x. subConnect rt = ClientThrows x")
    case True
    with pub show ?thesis by (auto simp add: startServer_sub_throws)
  next
    case False
    with pub show ?thesis
      by (simp add: startServer_trace split: link.split)
  qed
qed

lemma start_registers:
  "concat (map (registered routes) (effects (start config rt))) =
     [Middleware (behaviour (CookieSession (cookieSessionConfig config))),
      Middleware (behaviour Hpp),
      Middleware (behaviour Helmet),
      Middleware (behaviour (Cors (CLIENT_URL config) True 200
                               [''GET'', ''POST'', ''PUT'', ''DELETE'', ''OPTIONS''])),
      Middleware (behaviour Compression),
      Middleware (behaviour (Json ''50mb'')),
      Middleware (behaviour (Urlencoded True ''50mb''))]
     @ map RouteLayer routes
     @ [RouteLayer \<lparr>route_match = match_pattern ''*'', handler = catchAllHandler\<rparr>,
        ErrorLayer errorHandler]"
  by (simp add: start_trace prepend_def startServer_registers_nothing)

section \<open>Request handling\<close>


lemma and_then_Next: "and_then (emit Next) k = prepend [Next] (k None)"
  by (simp add: and_then_def emit_def)

lemma and_then_throws: "and_then ([], Throws t) k = k (Some t)"
  by (simp add: and_then_def prepend_def)



lemma router_routes_no_match:
  "\<forall>r \<in> set routes. route_match r req = NoMatch \<Longrightarrow>
     router (map RouteLayer routes @ ls) pending req = router ls pending req"
  by (induction routes) simp_all

lemma router_routes_pending:
  "router (map RouteLayer routes @ ls) (Some e) req = router ls (Some e) req"
  by (induction routes) (simp_all split: match_result.split)


lemma router_tail_error:
  "router [RouteLayer \<lparr>route_match = match_pattern ''*'', handler = catchAllHandler\<rparr>,
           ErrorLayer errorHandler] (Some (OtherErr x)) req =
     ([LogError (OtherErr x), Next, FinalHandler None], Returns ())"
  by (simp add: match_pattern_def errorHandler_def and_then_def js_defs)

text \<open>
  The middleware ahead of the routes passes a request on when it is no OPTIONS request
  and the body parsers raise no error on it: each of the seven calls \<^verbatim>\<open>next()\<close>.
\<close>

lemma router_passes_middleware:
  assumes "toUpperCase (httpMethod req) \<noteq> ''OPTIONS''"
    and "jsonError req = None" and "urlencodedError req = None"
  shows "router
       ([Middleware (behaviour (CookieSession (cookieSessionConfig config))),
         Middleware (behaviour Hpp),
         Middleware (behaviour Helmet),
         Middleware (behaviour (Cors (CLIENT_URL config) True 200
                                  [''GET'', ''POST'', ''PUT'', ''DELETE'', ''OPTIONS''])),
         Middleware (behaviour Compression),
         Middleware (behaviour (Json ''50mb'')),
         Middleware (behaviour (Urlencoded True ''50mb''))] @ ls) None req =
     prepend [Next, Next, Next, Next, Next, Next, Next] (router ls None req)"
  using assms by (simp add: and_then_Next prepend_def)

lemma handle_request_passes_middleware:
  assumes "Listen SERVER_PORT \<in> set (effects (start config rt))"
    and "toUpperCase (httpMethod req) \<noteq> ''OPTIONS''"
    and "jsonError req = None" and "urlencodedError req = None"
  shows "handle_request config rt routes req =
     prepend [Next, Next, Next, Next, Next, Next, Next]
       (router (map RouteLayer routes
          @ [RouteLayer \<lparr>route_match = match_pattern ''*'', handler = catchAllHandler\<rparr>,
             ErrorLayer errorHandler]) None req)"
proof -
  have "handle_request config rt routes req =
     router
       ([Middleware (behaviour (CookieSession (cookieSessionConfig config))),
         Middleware (behaviour Hpp),
         Middleware (behaviour Helmet),
         Middleware (behaviour (Cors (CLIENT_URL config) True 200
                                  [''GET'', ''POST'', ''PUT'', ''DELETE'', ''OPTIONS''])),
         Middleware (behaviour Compression),
         Middleware (behaviour (Json ''50mb'')),
         Middleware (behaviour (Urlencoded True ''50mb''))]
        @ (map RouteLayer routes
          @ [RouteLayer \<lparr>route_match = match_pattern ''*'', handler = catchAllHandler\<rparr>,
             ErrorLayer errorHandler])) None req"
    using assms(1) by (simp only: handle_request_def start_registers if_True)
  then show ?thesis
    by (simp only: router_passes_middleware [OF assms(2-4)])
qed

text \<open>An error that a body parser raises on the request goes to the error handler.\<close>

lemma rejected_json_body:
  assumes "Listen SERVER_PORT \<in> set (effects (start config rt))"
    and "toUpperCase (httpMethod req) \<noteq> ''OPTIONS''"
    and "jsonError req = Some x"
  shows "handle_request config rt routes req =
     ([Next, Next, Next, Next, Next, LogError (OtherErr x), Next, FinalHandler None],
      Returns ())"
proof -
  have "router
       ([Middleware (behaviour (CookieSession (cookieSessionConfig config))),
         Middleware (behaviour Hpp),
         Middleware (behaviour Helmet),
         Middleware (behaviour (Cors (CLIENT_URL config) True 200
                                  [''GET'', ''POST'', ''PUT'', ''DELETE'', ''OPTIONS''])),
         Middleware (behaviour Compression),
         Middleware (behaviour (Json ''50mb'')),
         Middleware (behaviour (Urlencoded True ''50mb''))] @ ls) None req =
     prepend [Next, Next, Next, Next, Next] (router ls (Some (OtherErr x)) req)" for ls
    using assms(2,3) by (simp add: and_then_Next and_then_throws prepend_def)
  moreover have "router (map RouteLayer routes
          @ [RouteLayer \<lparr>route_match = match_pattern ''*'', handler = catchAllHandler\<rparr>,
             ErrorLayer errorHandler]) (Some (OtherErr x)) req =
        ([LogError (OtherErr x), Next, FinalHandler None], Returns ())"
    by (simp only: router_routes_pending router_tail_error)
  ultimately show ?thesis
    using assms(1) by (simp add: handle_request_def start_registers prepend_def)
qed

text \<open>So does the error that Express raises when the path cannot be decoded.\<close>

lemma undecodable_path:
  assumes "Listen SERVER_PORT \<in> set (effects (start config rt))"
    and "toUpperCase (httpMethod req) \<noteq> ''OPTIONS''"
    and "jsonError req = None" and "urlencodedError req = None"
    and "\<not> decodable (pathname req)"
    and "\<forall>r \<in> set routes. route_match r req = NoMatch"
  shows "handle_request config rt routes req =
     ([Next, Next, Next, Next, Next, Next, Next,
       LogError (OtherErr (''Failed to decode param '' @ [CHR 0x27] @ pathname req @ [CHR 0x27])),
       Next, FinalHandler None],
      Returns ())"
proof -
  have "router (map RouteLayer routes
          @ [RouteLayer \<lparr>route_match = match_pattern ''*'', handler = catchAllHandler\<rparr>,
             ErrorLayer errorHandler]) None req =
        router [RouteLayer \<lparr>route_match = match_pattern ''*'', handler = catchAllHandler\<rparr>,
             ErrorLayer errorHandler] None req"
    using assms(6) by (rule router_routes_no_match)
  also have "\<dots> =
        ([LogError (OtherErr (''Failed to decode param '' @ [CHR 0x27] @ pathname req @ [CHR 0x27])),
          Next, FinalHandler None], Returns ())"
    using assms(5)
    by (simp add: match_pattern_def errorHandler_def and_then_def js_defs)
  finally show ?thesis
    by (simp add: handle_request_passes_middleware [OF assms(1-4)] prepend_def)
qed

section \<open>The error model\<close>

text \<open>
  C1. For each of the six error classes and every message, serialising a freshly
  constructed instance returns the object with exactly the properties message,
  statusCode and status, in that order: the message is the constructor's argument, the
  status is "error", and the status code is the one of the class (400, 404, 401, 413,
  503, 503), whatever the message is. The call performs no effect.
\<close>

theorem serializeErrors_of_each_class:
  "new_serializeErrors BadRequestError m =
     ([], Returns [(''message'', JStr m), (''statusCode'', JNum 400), (''status'', JStr ''error'')])
   \<and> new_serializeErrors NotFoundError m =
     ([], Returns [(''message'', JStr m), (''statusCode'', JNum 404), (''status'', JStr ''error'')])
   \<and> new_serializeErrors NotAuthorizedError m =
     ([], Returns [(''message'', JStr m), (''statusCode'', JNum 401), (''status'', JStr ''error'')])
   \<and> new_serializeErrors FileTooLargeError m =
     ([], Returns [(''message'', JStr m), (''statusCode'', JNum 413), (''status'', JStr ''error'')])
   \<and> new_serializeErrors ServerError m =
     ([], Returns [(''message'', JStr m), (''statusCode'', JNum 503), (''status'', JStr ''error'')])
   \<and> new_serializeErrors JoinValidationError m =
     ([], Returns [(''message'', JStr m), (''statusCode'', JNum 503), (''status'', JStr ''error'')])"
  by (simp add: new_serializeErrors_def serializeErrors_def constructor_defs js_defs
      HTTP_STATUS_defs)

text \<open>
  C5, as the code has it. Every constructor accepts every message, the empty one
  included, and returns an instance carrying it; none of them throws. The constructor
  takes the message only: the status code (400, 404, 401, 413, 503, 503) and the status
  "error" come from the class.
\<close>

theorem construction_of_each_class:
  "BadRequestError m =
     ([], Returns \<lparr>message = m, statusCode = 400, status = ''error'',
                   cls = BadRequestErrorClass\<rparr>)
   \<and> NotFoundError m =
     ([], Returns \<lparr>message = m, statusCode = 404, status = ''error'',
                   cls = NotFoundErrorClass\<rparr>)
   \<and> NotAuthorizedError m =
     ([], Returns \<lparr>message = m, statusCode = 401, status = ''error'',
                   cls = NotAuthorizedErrorClass\<rparr>)
   \<and> FileTooLargeError m =
     ([], Returns \<lparr>message = m, statusCode = 413, status = ''error'',
                   cls = FileTooLargeErrorClass\<rparr>)
   \<and> ServerError m =
     ([], Returns \<lparr>message = m, statusCode = 503, status = ''error'',
                   cls = ServerErrorClass\<rparr>)
   \<and> JoinValidationError m =
     ([], Returns \<lparr>message = m, statusCode = 503, status = ''error'',
                   cls = JoinValidationErrorClass\<rparr>)"
  by (simp add: constructor_defs HTTP_STATUS_defs ret_def)

text \<open>
  The claim that an empty message is rejected fails: \<^verbatim>\<open>new BadRequestError('')\<close> does
  not throw, it returns an instance whose message is the empty string.
\<close>

theorem construction_accepts_empty_message:
  "\<not> throws (BadRequestError [])
   \<and> BadRequestError [] =
       ([], Returns \<lparr>message = [], statusCode = 400, status = ''error'',
                     cls = BadRequestErrorClass\<rparr>)"
  by (simp add: throws_def BadRequestError_def BAD_REQUEST_def ret_def)

text \<open>
  C9. Serialisation is pure and idempotent: for every instance the call returns (it does
  not throw and does not stay suspended), performs no effect and leaves the instance as
  it was; a second call on the instance returns the same object as the first.
\<close>

theorem serializeErrors_pure:
  "\<exists>body. serializeErrors e = ([], Returns (body, e))
      \<and> serializeErrors_twice e = ([], Returns (body, body))"
  by (simp add: serializeErrors_twice_def serializeErrors_def js_defs)

section \<open>The error dispatcher\<close>

text \<open>
  C2. For an instance of CustomError the error handler answers with the instance's
  status code and with the object that serializeErrors() returns for it, and it returns.
  For every error, recognised or not, the first thing the handler does is to log it, so
  the log entry comes before any response.
\<close>

theorem errorHandler_recognized:
  "(\<exists>body. serializeErrors e = ([], Returns (body, e))
      \<and> errorHandler (CustomErr e) =
          ([LogError (CustomErr e), ResStatus (statusCode e), ResJson body], Returns ()))
   \<and> take 1 (effects (errorHandler error)) = [LogError error]"
  by (cases error) (simp_all add: errorHandler_def serializeErrors_def js_defs)

text \<open>
  C4. For an error that is not an instance of CustomError the handler logs it and calls
  next(), and does nothing else: it sets no status and sends no body.
\<close>

theorem errorHandler_unrecognized:
  "errorHandler (OtherErr x) = ([LogError (OtherErr x), Next], Returns ())"
  by (simp add: errorHandler_def js_defs)




section \<open>The bootstrap sequence\<close>

text \<open>
  C10. The session cookie that start configures has a maximum age of
  24 * 7 * 360000 = 60480000 milliseconds. That is 16.8 hours, and it is not the
  604800000 milliseconds of seven days.
\<close>

theorem cookie_maxAge:
  "maxAge (cookieSessionConfig config) = 60480000
   \<and> maxAge (cookieSessionConfig config) \<noteq> 604800000
   \<and> 10 * maxAge (cookieSessionConfig config) = 168 * (60 * 60 * 1000)
   \<and> AppUse (CookieSession (cookieSessionConfig config)) \<in> set (effects (start config rt))"
  by (simp add: cookieSessionConfig_def start_trace prepend_def)

text \<open>
  C6, as the code has it. When both links connect, start performs, in this order: the
  security wiring, the standard wiring, the route wiring, the error wiring, the creation
  of the HTTP server, the attachment of the gateway (the Socket.IO server) to it, the
  creation and connection of the two Redis clients, the attachment of the adapter, and
  only then the start of the listener. The listener starts after the gateway and the
  adapter are attached, not before.
\<close>

theorem start_order:
  assumes "pubConnect rt = Fulfilled" and "subConnect rt = Fulfilled"
  shows "start config rt =
     ([AppUse (CookieSession (cookieSessionConfig config)), AppUse Hpp, AppUse Helmet,
       AppUse (Cors (CLIENT_URL config) True 200
                 [''GET'', ''POST'', ''PUT'', ''DELETE'', ''OPTIONS'']),
       AppUse Compression, AppUse (Json ''50mb''), AppUse (Urlencoded True ''50mb''),
       ApplicationRoutes,
       AppAll ''*'', AppUseErrorHandler,
       NewHttpServer,
       NewSocketServer (CLIENT_URL config) [''GET'', ''POST'', ''PUT'', ''DELETE'', ''OPTIONS''],
       CreateClient (REDIS_HOST config), Duplicate, Connect PubClient, Connect SubClient,
       SetAdapter PubClient SubClient,
       LogInfo (''Server has started with process '' @ pid rt),
       Listen SERVER_PORT],
      Returns ())"
proof -
  have "Promise_all (pubSettlesFirst rt) (pubConnect rt) (subConnect rt) = Fulfilled"
    using assms by (simp add: Promise_all_Fulfilled)
  with assms show ?thesis
    by (simp add: start_trace startServer_trace prepend_def)
qed

text \<open>An instance: a development configuration, process 20576, both links connecting.\<close>

theorem start_order_witness:
  "pubConnect \<lparr>pid = ''20576'', pubConnect = Fulfilled, subConnect = Fulfilled,
               pubSettlesFirst = True\<rparr> = Fulfilled
   \<and> subConnect \<lparr>pid = ''20576'', pubConnect = Fulfilled, subConnect = Fulfilled,
                 pubSettlesFirst = True\<rparr> = Fulfilled
   \<and> effects (start
        \<lparr>SECRET_KEY_ONE = ''k1'', SECRET_KEY_TWO = ''k2'', NODE_ENV = ''development'',
         CLIENT_URL = ''http://localhost:3000'', REDIS_HOST = ''redis://localhost:6379''\<rparr>
        \<lparr>pid = ''20576'', pubConnect = Fulfilled, subConnect = Fulfilled,
         pubSettlesFirst = True\<rparr>) =
       [AppUse (CookieSession \<lparr>name = ''session'', keys = [''k1'', ''k2''],
                               maxAge = 60480000, secure = False\<rparr>),
        AppUse Hpp, AppUse Helmet,
        AppUse (Cors ''http://localhost:3000'' True 200
                  [''GET'', ''POST'', ''PUT'', ''DELETE'', ''OPTIONS'']),
        AppUse Compression, AppUse (Json ''50mb''), AppUse (Urlencoded True ''50mb''),
        ApplicationRoutes,
        AppAll ''*'', AppUseErrorHandler,
        NewHttpServer,
        NewSocketServer ''http://localhost:3000''
          [''GET'', ''POST'', ''PUT'', ''DELETE'', ''OPTIONS''],
        CreateClient ''redis://localhost:6379'', Duplicate,
        Connect PubClient, Connect SubClient,
        SetAdapter PubClient SubClient,
        LogInfo ''Server has started with process 20576'',
        Listen 5000]"
  using start_order
    [of "\<lparr>pid = ''20576'', pubConnect = Fulfilled, subConnect = Fulfilled,
          pubSettlesFirst = True\<rparr>"
        "\<lparr>SECRET_KEY_ONE = ''k1'', SECRET_KEY_TWO = ''k2'', NODE_ENV = ''development'',
          CLIENT_URL = ''http://localhost:3000'', REDIS_HOST = ''redis://localhost:6379''\<rparr>"]
  by (simp add: cookieSessionConfig_def SERVER_PORT_def)

text \<open>
  The order the claim gives fails on that start: the gateway and the adapter are
  attached before the listener starts, and the listener does not start before either.
\<close>

theorem listener_starts_last:
  "precedes
     (NewSocketServer ''http://localhost:3000''
        [''GET'', ''POST'', ''PUT'', ''DELETE'', ''OPTIONS''])
     (Listen 5000)
     (effects (start
        \<lparr>SECRET_KEY_ONE = ''k1'', SECRET_KEY_TWO = ''k2'', NODE_ENV = ''development'',
         CLIENT_URL = ''http://localhost:3000'', REDIS_HOST = ''redis://localhost:6379''\<rparr>
        \<lparr>pid = ''20576'', pubConnect = Fulfilled, subConnect = Fulfilled,
         pubSettlesFirst = True\<rparr>))
   \<and> precedes (SetAdapter PubClient SubClient) (Listen 5000)
     (effects (start
        \<lparr>SECRET_KEY_ONE = ''k1'', SECRET_KEY_TWO = ''k2'', NODE_ENV = ''development'',
         CLIENT_URL = ''http://localhost:3000'', REDIS_HOST = ''redis://localhost:6379''\<rparr>
        \<lparr>pid = ''20576'', pubConnect = Fulfilled, subConnect = Fulfilled,
         pubSettlesFirst = True\<rparr>))
   \<and> \<not> precedes (Listen 5000)
     (NewSocketServer ''http://localhost:3000''
        [''GET'', ''POST'', ''PUT'', ''DELETE'', ''OPTIONS''])
     (effects (start
        \<lparr>SECRET_KEY_ONE = ''k1'', SECRET_KEY_TWO = ''k2'', NODE_ENV = ''development'',
         CLIENT_URL = ''http://localhost:3000'', REDIS_HOST = ''redis://localhost:6379''\<rparr>
        \<lparr>pid = ''20576'', pubConnect = Fulfilled, subConnect = Fulfilled,
         pubSettlesFirst = True\<rparr>))
   \<and> \<not> precedes (Listen 5000) (SetAdapter PubClient SubClient)
     (effects (start
        \<lparr>SECRET_KEY_ONE = ''k1'', SECRET_KEY_TWO = ''k2'', NODE_ENV = ''development'',
         CLIENT_URL = ''http://localhost:3000'', REDIS_HOST = ''redis://localhost:6379''\<rparr>
        \<lparr>pid = ''20576'', pubConnect = Fulfilled, subConnect = Fulfilled,
         pubSettlesFirst = True\<rparr>))"
  by (simp add: precedes_def start_trace startServer_trace prepend_def Promise_all_def
      SERVER_PORT_def)

text \<open>
  C7, as the code has it. Establishing a link fails when its client cannot be made
  (createClient or duplicate throws) or when its connect promise is rejected. When that
  happens to the publish link or to the subscribe link, start logs the cause, which is
  the first of the failures to occur, and returns; the adapter is never attached and
  the listener is never started, so the server does not come to serve. The four wiring
  steps are done by then, and the gateway is already attached to the HTTP server, which
  never listens.
\<close>

theorem link_failure_aborts_start:
  assumes "pubConnect rt = ClientThrows e \<or> pubConnect rt = Rejected e
     \<or> subConnect rt = ClientThrows e \<or> subConnect rt = Rejected e"
  shows "\<exists>cause calls.
       start config rt =
         ([AppUse (CookieSession (cookieSessionConfig config)), AppUse Hpp, AppUse Helmet,
           AppUse (Cors (CLIENT_URL config) True 200
                     [''GET'', ''POST'', ''PUT'', ''DELETE'', ''OPTIONS'']),
           AppUse Compression, AppUse (Json ''50mb''), AppUse (Urlencoded True ''50mb''),
           ApplicationRoutes,
           AppAll ''*'', AppUseErrorHandler,
           NewHttpServer,
           NewSocketServer (CLIENT_URL config)
             [''GET'', ''POST'', ''PUT'', ''DELETE'', ''OPTIONS''],
           CreateClient (REDIS_HOST config)]
          @ calls @ [LogError cause],
          Returns ())
     \<and> (pubConnect rt = ClientThrows cause \<and> calls = []
        \<or> (\<forall>x. pubConnect rt \<noteq> ClientThrows x) \<and> subConnect rt = ClientThrows cause
            \<and> calls = [Duplicate]
        \<or> (\<forall>x. pubConnect rt \<noteq> ClientThrows x) \<and> (\<forall>x. subConnect rt \<noteq> ClientThrows x)
            \<and> calls = [Duplicate, Connect PubClient, Connect SubClient]
            \<and> (pubConnect rt = Rejected cause
                  \<and> ((\<forall>x. subConnect rt \<noteq> Rejected x) \<or> pubSettlesFirst rt)
               \<or> subConnect rt = Rejected cause
                  \<and> ((\<forall>x. pubConnect rt \<noteq> Rejected x) \<or> \<not> pubSettlesFirst rt)))
     \<and> (\<forall>port. Listen port \<notin> set (effects (start config rt)))
     \<and> (\<forall>p s. SetAdapter p s \<notin> set (effects (start config rt)))"
proof (cases "\<exists>x. pubConnect rt = ClientThrows x")
  case True
  then obtain x where x: "pubConnect rt = ClientThrows x" ..
  show ?thesis
    by (intro exI [of _ x] exI [of _ "[]"])
      (simp add: x start_trace startServer_pub_throws prepend_def)
next
  case pub: False
  show ?thesis
  proof (cases "\<exists>x. subConnect rt = ClientThrows x")
    case True
    then obtain x where x: "subConnect rt = ClientThrows x" ..
    from pub show ?thesis
      by (intro exI [of _ x] exI [of _ "[Duplicate]"])
        (simp add: x start_trace startServer_sub_throws prepend_def)
  next
    case sub: False
    from pub have p: "\<forall>x. pubConnect rt \<noteq> ClientThrows x" by simp
    from sub have s: "\<forall>x. subConnect rt \<noteq> ClientThrows x" by simp
    from assms p s have "pubConnect rt = Rejected e \<or> subConnect rt = Rejected e"
      by simp
    then have "\<exists>t. Promise_all (pubSettlesFirst rt) (pubConnect rt) (subConnect rt) = Rejected t"
      using p s by (cases "pubConnect rt"; cases "subConnect rt") (auto simp add: Promise_all_def)
    then obtain t
      where t: "Promise_all (pubSettlesFirst rt) (pubConnect rt) (subConnect rt) = Rejected t" ..
    then have first: "pubConnect rt = Rejected t
          \<and> ((\<forall>x. subConnect rt \<noteq> Rejected x) \<or> pubSettlesFirst rt)
        \<or> subConnect rt = Rejected t
          \<and> ((\<forall>x. pubConnect rt \<noteq> Rejected x) \<or> \<not> pubSettlesFirst rt)"
      using Promise_all_first_reason [OF p s] by simp
    have "startServer config rt =
        ([NewHttpServer,
          NewSocketServer (CLIENT_URL config)
            [''GET'', ''POST'', ''PUT'', ''DELETE'', ''OPTIONS''],
          CreateClient (REDIS_HOST config), Duplicate,
          Connect PubClient, Connect SubClient,
          LogError t],
         Returns ())"
      using t by (simp add: startServer_trace [OF p s])
    with p s first show ?thesis
      by (intro exI [of _ t] exI [of _ "[Duplicate, Connect PubClient, Connect SubClient]"])
        (simp add: start_trace prepend_def)
  qed
qed

text \<open>
  An instance: both connect promises are rejected, the one of the subscribe link first.
  Its reason is the one logged, and the listener never starts.
\<close>

theorem link_failure_aborts_start_witness:
  "subConnect \<lparr>pid = ''20576'', pubConnect = Rejected (OtherErr ''pubdown''),
               subConnect = Rejected (OtherErr ''subdown''),
               pubSettlesFirst = False\<rparr> = Rejected (OtherErr ''subdown'')
   \<and> effects (start
        \<lparr>SECRET_KEY_ONE = ''k1'', SECRET_KEY_TWO = ''k2'', NODE_ENV = ''development'',
         CLIENT_URL = ''http://localhost:3000'', REDIS_HOST = ''redis://localhost:6379''\<rparr>
        \<lparr>pid = ''20576'', pubConnect = Rejected (OtherErr ''pubdown''),
         subConnect = Rejected (OtherErr ''subdown''), pubSettlesFirst = False\<rparr>) =
       [AppUse (CookieSession \<lparr>name = ''session'', keys = [''k1'', ''k2''],
                               maxAge = 60480000, secure = False\<rparr>),
        AppUse Hpp, AppUse Helmet,
        AppUse (Cors ''http://localhost:3000'' True 200
                  [''GET'', ''POST'', ''PUT'', ''DELETE'', ''OPTIONS'']),
        AppUse Compression, AppUse (Json ''50mb''), AppUse (Urlencoded True ''50mb''),
        ApplicationRoutes,
        AppAll ''*'', AppUseErrorHandler,
        NewHttpServer,
        NewSocketServer ''http://localhost:3000''
          [''GET'', ''POST'', ''PUT'', ''DELETE'', ''OPTIONS''],
        CreateClient ''redis://localhost:6379'', Duplicate,
        Connect PubClient, Connect SubClient,
        LogError (OtherErr ''subdown'')]
   \<and> Listen 5000 \<notin> set (effects (start
        \<lparr>SECRET_KEY_ONE = ''k1'', SECRET_KEY_TWO = ''k2'', NODE_ENV = ''development'',
         CLIENT_URL = ''http://localhost:3000'', REDIS_HOST = ''redis://localhost:6379''\<rparr>
        \<lparr>pid = ''20576'', pubConnect = Rejected (OtherErr ''pubdown''),
         subConnect = Rejected (OtherErr ''subdown''), pubSettlesFirst = False\<rparr>))"
  using link_failure_aborts_start
    [of "\<lparr>pid = ''20576'', pubConnect = Rejected (OtherErr ''pubdown''),
          subConnect = Rejected (OtherErr ''subdown''), pubSettlesFirst = False\<rparr>"
        "OtherErr ''subdown''"
        "\<lparr>SECRET_KEY_ONE = ''k1'', SECRET_KEY_TWO = ''k2'', NODE_ENV = ''development'',
          CLIENT_URL = ''http://localhost:3000'', REDIS_HOST = ''redis://localhost:6379''\<rparr>"]
  by (auto simp add: cookieSessionConfig_def)

text \<open>
  The claim that the gateway is never attached fails on that start: the Socket.IO server
  is made on the HTTP server before the links are tried.
\<close>

theorem gateway_attached_despite_link_failure:
  "NewSocketServer ''http://localhost:3000''
      [''GET'', ''POST'', ''PUT'', ''DELETE'', ''OPTIONS'']
     \<in> set (effects (start
        \<lparr>SECRET_KEY_ONE = ''k1'', SECRET_KEY_TWO = ''k2'', NODE_ENV = ''development'',
         CLIENT_URL = ''http://localhost:3000'', REDIS_HOST = ''redis://localhost:6379''\<rparr>
        \<lparr>pid = ''20576'', pubConnect = Fulfilled,
         subConnect = Rejected (OtherErr ''ECONNREFUSED''), pubSettlesFirst = True\<rparr>))"
  by (simp add: start_trace startServer_trace prepend_def Promise_all_def)

text \<open>
  C8. The adapter is attached only after both links are established: whenever the
  adapter is attached in a start, both connect promises were fulfilled, and both
  connect calls come before the attachment in the trace.
\<close>

theorem adapter_only_after_both_links:
  assumes "SetAdapter PubClient SubClient \<in> set (effects (start config rt))"
  shows "pubConnect rt = Fulfilled \<and> subConnect rt = Fulfilled
     \<and> precedes (Connect PubClient) (SetAdapter PubClient SubClient)
         (effects (start config rt))
     \<and> precedes (Connect SubClient) (SetAdapter PubClient SubClient)
         (effects (start config rt))"
proof -
  have p: "\<forall>x. pubConnect rt \<noteq> ClientThrows x"
    using assms by (auto simp add: start_trace startServer_pub_throws prepend_def)
  have s: "\<forall>x. subConnect rt \<noteq> ClientThrows x"
    using assms p by (auto simp add: start_trace startServer_sub_throws prepend_def)
  show ?thesis
  proof (cases "Promise_all (pubSettlesFirst rt) (pubConnect rt) (subConnect rt)")
    case Fulfilled
    then have "pubConnect rt = Fulfilled \<and> subConnect rt = Fulfilled"
      by (simp add: Promise_all_Fulfilled)
    moreover from Fulfilled have
      "precedes (Connect PubClient) (SetAdapter PubClient SubClient) (effects (start config rt))"
      "precedes (Connect SubClient) (SetAdapter PubClient SubClient) (effects (start config rt))"
      by (simp_all add: precedes_def start_trace startServer_trace [OF p s] prepend_def)
    ultimately show ?thesis by simp
  next
    case (Rejected t)
    with assms show ?thesis
      by (simp add: start_trace startServer_trace [OF p s] prepend_def)
  next
    case Unsettled
    with assms show ?thesis
      by (simp add: start_trace startServer_trace [OF p s] prepend_def)
  next
    case (ClientThrows t)
    then show ?thesis
      by (simp add: Promise_all_not_ClientThrows)
  qed
qed

text \<open>An instance: both links connect, and the adapter is attached after both calls.\<close>

theorem adapter_only_after_both_links_witness:
  "SetAdapter PubClient SubClient \<in> set (effects (start
        \<lparr>SECRET_KEY_ONE = ''k1'', SECRET_KEY_TWO = ''k2'', NODE_ENV = ''development'',
         CLIENT_URL = ''http://localhost:3000'', REDIS_HOST = ''redis://localhost:6379''\<rparr>
        \<lparr>pid = ''20576'', pubConnect = Fulfilled, subConnect = Fulfilled,
         pubSettlesFirst = False\<rparr>))
   \<and> precedes (Connect PubClient) (SetAdapter PubClient SubClient) (effects (start
        \<lparr>SECRET_KEY_ONE = ''k1'', SECRET_KEY_TWO = ''k2'', NODE_ENV = ''development'',
         CLIENT_URL = ''http://localhost:3000'', REDIS_HOST = ''redis://localhost:6379''\<rparr>
        \<lparr>pid = ''20576'', pubConnect = Fulfilled, subConnect = Fulfilled,
         pubSettlesFirst = False\<rparr>))
   \<and> precedes (Connect SubClient) (SetAdapter PubClient SubClient) (effects (start
        \<lparr>SECRET_KEY_ONE = ''k1'', SECRET_KEY_TWO = ''k2'', NODE_ENV = ''development'',
         CLIENT_URL = ''http://localhost:3000'', REDIS_HOST = ''redis://localhost:6379''\<rparr>
        \<lparr>pid = ''20576'', pubConnect = Fulfilled, subConnect = Fulfilled,
         pubSettlesFirst = False\<rparr>))"
proof -
  have "SetAdapter PubClient SubClient \<in> set (effects (start
        \<lparr>SECRET_KEY_ONE = ''k1'', SECRET_KEY_TWO = ''k2'', NODE_ENV = ''development'',
         CLIENT_URL = ''http://localhost:3000'', REDIS_HOST = ''redis://localhost:6379''\<rparr>
        \<lparr>pid = ''20576'', pubConnect = Fulfilled, subConnect = Fulfilled,
         pubSettlesFirst = False\<rparr>))"
    by (simp add: start_trace startServer_trace prepend_def Promise_all_def)
  from this adapter_only_after_both_links [OF this] show ?thesis
    by simp
qed

end
